theory Spec2Isabelle
  imports Main "HOL-Library.Word"
begin

section \<open>The export handler (the Lambda function behind GET /api-docs/api-docs.json)\<close>

text \<open>
  The handler builds one \<open>GetExportRequest\<close> from the process environment, hands it to
  \<open>client.getExport\<close> of an API Gateway client for region eu-west-1, and answers the
  Lambda callback from inside the SDK callback \<open>(err, data) => ...\<close>.

  The AWS SDK and the Node runtime are not part of the repository. The embedding takes
  them as arguments:
  \<^item> \<open>getExport\<close>, the platform's export capability: what the SDK delivers for a
    client configuration and a request;
  \<^item> \<open>toString\<close>, Node's \<open>Buffer.prototype.toString('utf8')\<close>: the text of a buffer
    (\<open>Buffer_toString_utf8\<close> below is what Node computes);
  \<^item> \<open>env\<close>, \<open>process.env\<close>: a variable that is not set reads as \<open>undefined\<close>
    (\<open>None\<close>); the cast \<open>as string\<close> changes nothing at run time.
  The SDK calls back after the handler has returned; the embedding runs the callback
  in place and records what the handler did: the platform calls it issued, the
  invocations of the Lambda callback in order, and how the SDK callback ended.
\<close>

type_synonym byte = "8 word"
type_synonym Buffer = "byte list"

text \<open>
  A JavaScript string that is the text of a document: the list of its code points. (A
  code point above U+FFFF is two UTF-16 code units in the JavaScript value.) Names,
  header values and other literals of the code are plain ASCII strings.
\<close>

type_synonym js_string = "nat list"

text \<open>The incoming HTTP event and the Lambda context; the handler reads neither.\<close>

record APIGatewayProxyEventV2 =
  routeKey :: string
  rawPath :: string
  rawQueryString :: string
  event_headers :: "(string \<times> string) list"
  queryStringParameters :: "(string \<times> string) list option"
  event_body :: "string option"

record Context =
  functionName :: string
  awsRequestId :: string

record GetExportRequest =
  restApiId :: "string option"
  stageName :: "string option"
  exportType :: string
  parameters :: "(string \<times> string) list"

record ClientConfiguration =
  region :: string

record AWSError =
  code :: string
  message :: string

text \<open>\<open>ExportResponse\<close> of the SDK: every member is optional.\<close>

record ExportResponse =
  contentType :: "string option"
  contentDisposition :: "string option"
  body :: "Buffer option"

text \<open>
  The SDK's contract for \<open>callback(err, data)\<close>: on failure \<open>err\<close> is the error and
  \<open>data\<close> is null, on success \<open>err\<close> is null and \<open>data\<close> the response.
\<close>

datatype getExport_outcome = Failed AWSError | Succeeded ExportResponse

definition callback_err :: "getExport_outcome \<Rightarrow> AWSError option" where
  "callback_err r = (case r of Failed e \<Rightarrow> Some e | Succeeded d \<Rightarrow> None)"

definition callback_data :: "getExport_outcome \<Rightarrow> ExportResponse option" where
  "callback_data r = (case r of Failed e \<Rightarrow> None | Succeeded d \<Rightarrow> Some d)"

datatype js_error = TypeError

record APIGatewayProxyResultV2 =
  statusCode :: nat
  headers :: "(string \<times> string) list"
  result_body :: js_string

text \<open>\<open>callback(err)\<close> and \<open>callback(null, result)\<close>.\<close>

datatype callback_call = Callback_error AWSError | Callback_result APIGatewayProxyResultV2

datatype completion = Returned | Threw js_error

record handler_run =
  calls :: "(ClientConfiguration \<times> GetExportRequest) list"
  callbacks :: "callback_call list"
  ending :: completion

text \<open>\<open>data.body\<close>: reading a member of null or undefined throws a TypeError.\<close>

definition data_body :: "ExportResponse option \<Rightarrow> js_error + Buffer option" where
  "data_body data = (case data of None \<Rightarrow> Inl TypeError | Some d \<Rightarrow> Inr (body d))"

text \<open>\<open>Buffer.from(b)\<close>: a copy of the buffer \<open>b\<close>; a TypeError for undefined.\<close>

definition Buffer_from :: "Buffer option \<Rightarrow> js_error + Buffer" where
  "Buffer_from v = (case v of None \<Rightarrow> Inl TypeError | Some b \<Rightarrow> Inr b)"

text \<open>
  The SDK callback, lines 16 to 25:
  \<^verbatim>\<open>(err, data) => { if (err) callback(err); callback(null, {statusCode: 200, headers: {...}, body: Buffer.from(<Buffer>data.body).toString('utf8')}) }\<close>
  The \<open>if\<close> has no \<open>return\<close> and no \<open>else\<close>: the second statement runs whatever
  \<open>err\<close> is. Its argument is evaluated before \<open>callback\<close> is entered, so a throw
  there leaves the second callback uncalled.
\<close>

definition getExport_callback ::
  "(Buffer \<Rightarrow> js_string) \<Rightarrow> AWSError option \<Rightarrow> ExportResponse option \<Rightarrow> callback_call list \<times> completion" where
  "getExport_callback toString err data =
     (let reported = (case err of Some e \<Rightarrow> [Callback_error e] | None \<Rightarrow> [])
      in case data_body data of
           Inl x \<Rightarrow> (reported, Threw x)
         | Inr b \<Rightarrow>
             (case Buffer_from b of
                Inl x \<Rightarrow> (reported, Threw x)
              | Inr buf \<Rightarrow>
                  (reported @
                     [Callback_result
                        \<lparr>statusCode = 200,
                         headers = [(''Access-Control-Allow-Origin'', ''*'')],
                         result_body = toString buf\<rparr>],
                   Returned)))"

definition getExportParams :: "(string \<Rightarrow> string option) \<Rightarrow> GetExportRequest" where
  "getExportParams env =
     \<lparr>restApiId = env ''restApiId'',
      stageName = env ''stage'',
      exportType = ''oas30'',
      parameters = [(''extensions'', ''documentation'')]\<rparr>"

definition client :: ClientConfiguration where
  "client = \<lparr>region = ''eu-west-1''\<rparr>"

definition handler ::
  "(Buffer \<Rightarrow> js_string) \<Rightarrow> (ClientConfiguration \<Rightarrow> GetExportRequest \<Rightarrow> getExport_outcome) \<Rightarrow>
   (string \<Rightarrow> string option) \<Rightarrow> APIGatewayProxyEventV2 \<Rightarrow> Context \<Rightarrow> handler_run" where
  "handler toString getExport env event context =
     (let r = getExport client (getExportParams env);
          (cbs, c) = getExport_callback toString (callback_err r) (callback_data r)
      in \<lparr>calls = [(client, getExportParams env)], callbacks = cbs, ending = c\<rparr>)"

text \<open>
  The environment that \<open>getOas3Spec\<close> of the stack gives the function
  (api-docs-stack.ts, lines 270 to 274).
\<close>

definition getOas3_environment :: "string \<Rightarrow> string option" where
  "getOas3_environment =
     [''restApiId'' \<mapsto> ''dekq8mivw9'', ''stage'' \<mapsto> ''prod'', ''extensions'' \<mapsto> ''apigateway'']"

section \<open>The documentation registry (class ApiDocsStack)\<close>

text \<open>
  The stack is built by the constructor of \<open>ApiDocsStack\<close>: every \<open>new X(scope, id, props)\<close>
  and every \<open>addResource\<close>, \<open>addMethod\<close>, \<open>addModel\<close> adds a construct to the
  construct tree, which the platform later receives as a whole. The embedding threads
  the tree through the methods as a state: the constructs in creation order, each with
  its scope and id, and the number of times the system clock has been read.

  Of the JavaScript runtime the stack uses \<open>new Date()\<close>, \<open>Date.prototype.toISOString\<close>,
  \<open>JSON.stringify\<close> and \<open>Path.resolve\<close>; they are the fields of \<open>js_runtime\<close>,
  \<open>now_at n\<close> being what the clock shows at its \<open>n\<close>-th reading, in milliseconds
  since the epoch.
\<close>

datatype Date = Date (getTime: int)

datatype json = JString string | JObject "(string \<times> json) list"

record js_runtime =
  now_at :: "nat \<Rightarrow> int"
  toISOString :: "Date \<Rightarrow> string"
  JSON_stringify :: "json \<Rightarrow> string"
  Path_resolve :: "string \<Rightarrow> string"

subsection \<open>A number in a template literal\<close>

text \<open>
  \<open>`${now.getTime()}`\<close> is \<open>Number.prototype.toString\<close> of an integer: its decimal
  digits, after a minus sign when it is negative. (A time value is an integer of
  absolute value at most 8.64e15, far below 1e21, where JavaScript would switch to
  exponent notation.)
\<close>

definition digit_char :: "nat \<Rightarrow> char" where
  "digit_char d = ''0123456789'' ! d"

fun digits :: "nat \<Rightarrow> string" where
  "digits n = (if n < 10 then [digit_char n] else digits (n div 10) @ [digit_char (n mod 10)])"

definition Number_toString :: "int \<Rightarrow> string" where
  "Number_toString t = (if t < 0 then CHR ''-'' # digits (nat (- t)) else digits (nat t))"

text \<open>
  Reading a version id back as a number (\<open>Number(s)\<close> on a decimal integer literal),
  to compare version ids by their numeric value.
\<close>

definition digit_value :: "char \<Rightarrow> nat" where
  "digit_value c = of_char c - 48"

definition digits_value :: "string \<Rightarrow> nat" where
  "digits_value s = foldl (\<lambda>a c. 10 * a + digit_value c) 0 s"

definition decimal_value :: "string \<Rightarrow> int" where
  "decimal_value s =
     (case s of
        [] \<Rightarrow> 0
      | c # cs \<Rightarrow> if c = CHR ''-'' then - int (digits_value cs) else int (digits_value s))"

subsection \<open>Constructs and their properties\<close>

text \<open>
  A location key as the stack writes it: \<open>type\<close> and the optional \<open>name\<close>,
  \<open>path\<close> and \<open>method\<close> (a field that is not written is \<open>None\<close>).
\<close>

record LocationProperty =
  type :: string
  name :: "string option"
  path :: "string option"
  "method" :: "string option"

text \<open>\<open>api.restApiId\<close>: a reference to the construct with that id, resolved at deployment.\<close>

datatype token = Ref string

record CfnDocumentationPartProps =
  location :: LocationProperty
  part_restApiId :: token
  properties :: string

record CfnDocumentationVersionProps =
  version_restApiId :: token
  documentationVersion :: string
  version_description :: string

datatype Cors = ALL_ORIGINS | ALL_METHODS | DEFAULT_HEADERS

record CorsOptions =
  allowOrigins :: Cors
  allowMethods :: Cors
  allowHeaders :: Cors
  disableCache :: bool

record IntegrationResponse =
  integration_statusCode :: string
  integration_responseParameters :: "(string \<times> string) list"

datatype Integration = MockIntegration | LambdaIntegration string "IntegrationResponse list"

record RestApiProps =
  defaultIntegration :: Integration
  defaultCorsPreflightOptions :: CorsOptions
  deployOptions_description :: string
  api_description :: string

datatype IdentitySource = header string

record RequestAuthorizerProps =
  authorizer_handler :: string
  authorizerName :: string
  identitySources :: "IdentitySource list"
  resultsCacheTtl_seconds :: nat

record NodejsFunctionProps =
  environment :: "(string \<times> string) list"
  function_handler :: string
  entry :: string

record MethodResponse =
  response_statusCode :: string
  responseModels :: "(string \<times> string) list"
  responseParameters :: "(string \<times> bool) list"

record MethodOptions =
  operationName :: "string option"
  requestParameters :: "(string \<times> bool) list"
  requestModels :: "(string \<times> string) list"
  methodResponses :: "MethodResponse list"
  authorizer_of :: "string option"

record ModelOptions =
  model_contentType :: string
  schema :: json

record PolicyStatementProps =
  sid :: string
  actions :: "string list"
  allow :: bool
  resources :: "string list"

text \<open>The root resource of an API has path \<open>/\<close>; \<open>addResource\<close> appends a path part.\<close>

datatype Resource = Resource (resource_path: string)

datatype RestApi = RestApi_of string

datatype RequestAuthorizer = RequestAuthorizer_of string

datatype construct =
    RestApi RestApiProps
  | CfnDocumentationVersion CfnDocumentationVersionProps
  | CfnDocumentationPart CfnDocumentationPartProps
  | RequestAuthorizer RequestAuthorizerProps
  | NodejsFunction NodejsFunctionProps
  | ResourceNode Resource
  | Method string "Integration option" MethodOptions
  | Model ModelOptions
  | RolePolicy PolicyStatementProps

text \<open>
  Where a construct is created: under the stack (\<open>this\<close>), under the API, under a
  resource (by its path) or under a function (by its id).
\<close>

datatype scope = This | Under_api | Under_resource string | Under_function string

record synth =
  constructs :: "(scope \<times> string \<times> construct) list"
  reads :: nat

definition new :: "scope \<Rightarrow> string \<Rightarrow> construct \<Rightarrow> synth \<Rightarrow> synth" where
  "new sc i c s = s\<lparr>constructs := constructs s @ [(sc, i, c)]\<rparr>"

text \<open>\<open>new Date()\<close>: one reading of the clock.\<close>

definition new_Date :: "js_runtime \<Rightarrow> synth \<Rightarrow> Date \<times> synth" where
  "new_Date rt s = (Date (now_at rt (reads s)), s\<lparr>reads := Suc (reads s)\<rparr>)"

definition restApiId_of :: "RestApi \<Rightarrow> token" where
  "restApiId_of api = (case api of RestApi_of i \<Rightarrow> Ref i)"

definition root :: "RestApi \<Rightarrow> Resource" where
  "root api = Resource ''/''"

text \<open>
  \<open>parent.addResource(pathPart)\<close>: the child's path is the parent's, a slash unless
  the parent's path ends in one, and the path part.
\<close>

definition addResource :: "Resource \<Rightarrow> string \<Rightarrow> synth \<Rightarrow> Resource \<times> synth" where
  "addResource parent pathPart s =
     (let p = resource_path parent;
          child = Resource ((if p \<noteq> [] \<and> last p = CHR ''/'' then p else p @ ''/'') @ pathPart)
      in (child, new (Under_resource p) pathPart (ResourceNode child) s))"

definition addMethod ::
  "Resource \<Rightarrow> string \<Rightarrow> Integration option \<Rightarrow> MethodOptions \<Rightarrow> synth \<Rightarrow> synth" where
  "addMethod r httpMethod target options s =
     new (Under_resource (resource_path r)) httpMethod (Method httpMethod target options) s"

text \<open>\<open>api.addModel(id, props)\<close>; the result is used as a response or request model, by name.\<close>

definition addModel :: "RestApi \<Rightarrow> string \<Rightarrow> ModelOptions \<Rightarrow> synth \<Rightarrow> string \<times> synth" where
  "addModel api i props s = (i, new Under_api i (Model props) s)"

text \<open>The values of the enumerations \<open>JsonSchemaType\<close> and \<open>JsonSchemaVersion\<close>.\<close>

definition JsonSchemaType_STRING :: string where "JsonSchemaType_STRING = ''string''"
definition JsonSchemaType_OBJECT :: string where "JsonSchemaType_OBJECT = ''object''"
definition JsonSchemaType_ARRAY :: string where "JsonSchemaType_ARRAY = ''array''"
definition JsonSchemaVersion_DRAFT4 :: string where
  "JsonSchemaVersion_DRAFT4 = ''http://json-schema.org/draft-04/schema#''"

subsection \<open>The methods of the stack\<close>

text \<open>
  \<open>createApi\<close> (lines 34 to 84): \<open>now\<close> is read once, at the top; the version id is
  its time value in a template literal; the deployment description, the description of
  the documentation version and the description and summary of the API-level
  documentation part are template literals around \<open>now.toISOString()\<close>.
\<close>

definition createApi :: "js_runtime \<Rightarrow> synth \<Rightarrow> RestApi \<times> synth" where
  "createApi rt s0 =
     (let (now, s1) = new_Date rt s0;
          documentationVersion' = Number_toString (getTime now);
          api = RestApi_of ''api'';
          s2 = new This ''api''
                 (RestApi
                    \<lparr>defaultIntegration = MockIntegration,
                     defaultCorsPreflightOptions =
                       \<lparr>allowOrigins = ALL_ORIGINS, allowMethods = ALL_METHODS,
                        allowHeaders = DEFAULT_HEADERS, disableCache = True\<rparr>,
                     deployOptions_description =
                       ''Description of deployment at '' @ toISOString rt now,
                     api_description = ''Blabla description''\<rparr>) s1;
          s3 = new This ''brute-force-docs-version''
                 (CfnDocumentationVersion
                    \<lparr>version_restApiId = restApiId_of api,
                     documentationVersion = documentationVersion',
                     version_description =
                       ''Documentation generated at '' @ toISOString rt now\<rparr>) s2;
          s4 = new This ''api-docs''
                 (CfnDocumentationPart
                    \<lparr>location = \<lparr>type = ''API'', name = None, path = None, method = None\<rparr>,
                     part_restApiId = restApiId_of api,
                     properties = JSON_stringify rt
                       (JObject
                          [(''info'', JObject
                             [(''title'', JString ''A custom title''),
                              (''description'', JString
                                 (''Documentation description generated at '' @
                                    toISOString rt now)),
                              (''summary'', JString
                                 (''Documentation summary generated at '' @
                                    toISOString rt now)),
                              (''license'', JObject
                                 [(''name'', JString ''MIT''),
                                  (''url'', JString ''https://opensource.org/licenses/MIT'')]),
                              (''contact'', JObject
                                 [(''name'', JString ''Some person''),
                                  (''email'', JString ''example@example.com''),
                                  (''url'', JString ''https://example.com'')])])])\<rparr>) s3
      in (api, s4))"

definition authorizer :: "js_runtime \<Rightarrow> RestApi \<Rightarrow> synth \<Rightarrow> RequestAuthorizer \<times> synth" where
  "authorizer rt api s0 =
     (let s1 = new This ''some-request-authorizer-doc''
                 (CfnDocumentationPart
                    \<lparr>location = \<lparr>type = ''AUTHORIZER'', name = Some ''SomeAuthorizer'',
                                 path = None, method = None\<rparr>,
                     part_restApiId = restApiId_of api,
                     properties = JSON_stringify rt
                       (JObject
                          [(''summary'', JString ''Some authorizer summary''),
                           (''description'', JString ''Some authorizer description''),
                           (''schema'', JObject
                              [(''type'', JString JsonSchemaType_STRING),
                               (''format'', JString ''uuid''),
                               (''example'', JString
                                  ''10c89c8b-fb09-430d-bfc3-3138736598bf'')])])\<rparr>) s0;
          s2 = new This ''some-authorizer-function''
                 (NodejsFunction
                    \<lparr>environment = [], function_handler = ''default'',
                     entry = Path_resolve rt ''src/lambda/getoas3.ts''\<rparr>) s1;
          s3 = new This ''some-request-authorizer''
                 (RequestAuthorizer
                    \<lparr>authorizer_handler = ''some-authorizer-function'',
                     authorizerName = ''SomeAuthorizer'',
                     identitySources = [header ''Authorization''],
                     resultsCacheTtl_seconds = 0\<rparr>) s2
      in (RequestAuthorizer_of ''some-request-authorizer'', s3))"

definition createTodo :: "RestApi \<Rightarrow> Resource \<Rightarrow> synth \<Rightarrow> synth" where
  "createTodo api todoRoute s0 =
     (let (request, s1) = addModel api ''CreateTodo''
            \<lparr>model_contentType = ''application/json'',
             schema = JObject
               [(''schema'', JString JsonSchemaVersion_DRAFT4),
                (''title'', JString ''CreateTodo''),
                (''type'', JString JsonSchemaType_OBJECT),
                (''properties'', JObject
                   [(''title'', JObject [(''type'', JString JsonSchemaType_STRING)]),
                    (''body'', JObject [(''type'', JString JsonSchemaType_STRING)])])]\<rparr> s0;
          (result, s2) = addModel api ''CreateTodoResult''
            \<lparr>model_contentType = ''application/json'',
             schema = JObject
               [(''schema'', JString JsonSchemaVersion_DRAFT4),
                (''title'', JString ''CreateTodoResult''),
                (''type'', JString JsonSchemaType_OBJECT),
                (''properties'', JObject
                   [(''todoId'', JObject
                       [(''type'', JString JsonSchemaType_STRING),
                        (''format'', JString ''uuid'')])])]\<rparr> s1
      in addMethod todoRoute ''POST'' None
           \<lparr>operationName = Some ''CreateTodo'',
            requestParameters = [],
            requestModels = [(''application/json'', request)],
            methodResponses =
              [\<lparr>response_statusCode = ''200'',
                responseModels = [(''application/json'', result)],
                responseParameters = []\<rparr>],
            authorizer_of = None\<rparr> s2)"

definition listTodos ::
  "js_runtime \<Rightarrow> RestApi \<Rightarrow> Resource \<Rightarrow> RequestAuthorizer \<Rightarrow> synth \<Rightarrow> synth" where
  "listTodos rt api todoRoute authorizer' s0 =
     (let (result, s1) = addModel api ''ListTodosResult''
            \<lparr>model_contentType = ''application/json'',
             schema = JObject
               [(''schema'', JString JsonSchemaVersion_DRAFT4),
                (''title'', JString ''ListTodosResult''),
                (''type'', JString JsonSchemaType_ARRAY),
                (''items'', JObject
                   [(''type'', JString JsonSchemaType_OBJECT),
                    (''properties'', JObject
                       [(''todoId'', JObject
                           [(''type'', JString JsonSchemaType_STRING),
                            (''format'', JString ''uuid'')]),
                        (''createdAt'', JObject
                           [(''type'', JString JsonSchemaType_STRING),
                            (''format'', JString ''date'')])])])]\<rparr> s0;
          s2 = addMethod todoRoute ''GET'' None
            \<lparr>operationName = Some ''ListTodos'',
             requestParameters = [(''method.request.header.Authorization'', True)],
             requestModels = [],
             methodResponses =
               [\<lparr>response_statusCode = ''200'',
                 responseModels = [(''application/json'', result)],
                 responseParameters = []\<rparr>],
             authorizer_of = Some (case authorizer' of RequestAuthorizer_of i \<Rightarrow> i)\<rparr> s1
      in new This ''ListTodo.Header.Authorization''
           (CfnDocumentationPart
              \<lparr>location = \<lparr>type = ''REQUEST_HEADER'', name = Some ''Authorization'',
                           path = Some (resource_path todoRoute), method = Some ''GET''\<rparr>,
               part_restApiId = restApiId_of api,
               properties = JSON_stringify rt
                 (JObject
                    [(''description'', JString ''Authorization header description''),
                     (''summary'', JString ''Authorization header summary''),
                     (''x-description'', JString ''Authorization header x-description''),
                     (''x-summary'', JString ''Authorization header x-summary'')])\<rparr>) s2)"

definition todoRoute ::
  "js_runtime \<Rightarrow> RestApi \<Rightarrow> RequestAuthorizer \<Rightarrow> synth \<Rightarrow> Resource \<times> synth" where
  "todoRoute rt api authorizer' s0 =
     (let (todoRoute', s1) = addResource (root api) ''todo'' s0;
          s2 = createTodo api todoRoute' s1;
          s3 = listTodos rt api todoRoute' authorizer' s2
      in (todoRoute', s3))"

definition getTodoById :: "RestApi \<Rightarrow> Resource \<Rightarrow> synth \<Rightarrow> synth" where
  "getTodoById api todoItemRoute' s0 =
     (let (result, s1) = addModel api ''GetTodoByIdResult''
            \<lparr>model_contentType = ''application/json'',
             schema = JObject
               [(''schema'', JString JsonSchemaVersion_DRAFT4),
                (''title'', JString ''GetTodoByIdResult''),
                (''type'', JString JsonSchemaType_OBJECT),
                (''properties'', JObject
                   [(''todoId'', JObject
                       [(''type'', JString JsonSchemaType_STRING),
                        (''format'', JString ''uuid'')]),
                    (''title'', JObject [(''type'', JString JsonSchemaType_STRING)]),
                    (''body'', JObject [(''type'', JString JsonSchemaType_STRING)]),
                    (''status'', JObject [(''type'', JString JsonSchemaType_STRING)]),
                    (''createdAt'', JObject
                       [(''type'', JString JsonSchemaType_STRING),
                        (''format'', JString ''date'')])])]\<rparr> s0
      in addMethod todoItemRoute' ''GET'' None
           \<lparr>operationName = Some ''GetTodoById'',
            requestParameters = [],
            requestModels = [],
            methodResponses =
              [\<lparr>response_statusCode = ''200'',
                responseModels = [(''application/json'', result)],
                responseParameters = []\<rparr>],
            authorizer_of = None\<rparr> s1)"

text \<open>
  \<open>todoItemRoute\<close> (lines 122 to 145). The location is written out in full: the
  name, the path of the resource it is given (\<open>todoRoute.path\<close>) and the method.
  Nothing is checked before the part is created.
\<close>

definition todoItemRoute :: "js_runtime \<Rightarrow> RestApi \<Rightarrow> Resource \<Rightarrow> synth \<Rightarrow> synth" where
  "todoItemRoute rt api todoRoute' s0 =
     (let (todoItemRoute', s1) = addResource todoRoute' ''{todoId}'' s0;
          s2 = new This ''todoIdDocs''
                 (CfnDocumentationPart
                    \<lparr>location = \<lparr>type = ''PATH_PARAMETER'', name = Some ''todoId'',
                                 path = Some (resource_path todoRoute'), method = Some ''GET''\<rparr>,
                     part_restApiId = restApiId_of api,
                     properties = JSON_stringify rt
                       (JObject
                          [(''description'', JString ''The id of the todo''),
                           (''format'', JString ''uuid''),
                           (''example'', JString ''01d64dee-e83d-4d26-b15a-5a1cd072b666''),
                           (''summary'', JString ''Sommary of the id of the todo''),
                           (''schema'', JObject
                              [(''type'', JString JsonSchemaType_STRING),
                               (''format'', JString ''uuid''),
                               (''example'', JString
                                  ''3908c6bb-941a-4c35-9a45-c6034006e8c5'')])])\<rparr>) s1
      in getTodoById api todoItemRoute' s2)"

definition getOas3Spec :: "js_runtime \<Rightarrow> Resource \<Rightarrow> synth \<Rightarrow> synth" where
  "getOas3Spec rt oas3Route s0 =
     (let s1 = new This ''getOas3''
                 (NodejsFunction
                    \<lparr>environment =
                       [(''restApiId'', ''dekq8mivw9''), (''stage'', ''prod''),
                        (''extensions'', ''apigateway'')],
                     function_handler = ''default'',
                     entry = Path_resolve rt ''src/lambda/getoas3.ts''\<rparr>) s0;
          s2 = new (Under_function ''getOas3'') ''AllowApiGatewayGet''
                 (RolePolicy
                    \<lparr>sid = ''AllowApiGatewayGet'', actions = [''apigateway:GET''],
                     allow = True, resources = [''*'']\<rparr>) s1;
          getOas3Integration = LambdaIntegration ''getOas3''
            [\<lparr>integration_statusCode = ''200'',
              integration_responseParameters =
                [(''method.response.header.Access-Control-Allow-Origin'', [CHR 39, CHR ''*'', CHR 39])]\<rparr>]
      in addMethod oas3Route ''GET'' (Some getOas3Integration)
           \<lparr>operationName = None,
            requestParameters = [],
            requestModels = [],
            methodResponses =
              [\<lparr>response_statusCode = ''200'',
                responseModels = [],
                responseParameters =
                  [(''method.response.header.Access-Control-Allow-Origin'', True)]\<rparr>],
            authorizer_of = None\<rparr> s2)"

definition apiDocsRoute :: "js_runtime \<Rightarrow> RestApi \<Rightarrow> synth \<Rightarrow> synth" where
  "apiDocsRoute rt api s0 =
     (let (apiDocsRoute', s1) = addResource (root api) ''api-docs'' s0;
          (oas3Route, s2) = addResource apiDocsRoute' ''api-docs.json'' s1
      in getOas3Spec rt oas3Route s2)"

text \<open>The constructor (lines 24 to 32); \<open>this.api\<close> is passed on as \<open>api\<close>.\<close>

definition ApiDocsStack :: "js_runtime \<Rightarrow> synth \<Rightarrow> synth" where
  "ApiDocsStack rt s0 =
     (let (api, s1) = createApi rt s0;
          (authorizer', s2) = authorizer rt api s1;
          (todoRoute', s3) = todoRoute rt api authorizer' s2;
          s4 = todoItemRoute rt api todoRoute' s3
      in apiDocsRoute rt api s4)"

subsection \<open>Reading the construct tree\<close>

fun part_of :: "scope \<times> string \<times> construct \<Rightarrow> CfnDocumentationPartProps list" where
  "part_of (sc, i, CfnDocumentationPart p) = [p]"
| "part_of (sc, i, c) = []"

fun version_of :: "scope \<times> string \<times> construct \<Rightarrow> CfnDocumentationVersionProps list" where
  "version_of (sc, i, CfnDocumentationVersion v) = [v]"
| "version_of (sc, i, c) = []"

fun api_of :: "scope \<times> string \<times> construct \<Rightarrow> RestApiProps list" where
  "api_of (sc, i, RestApi a) = [a]"
| "api_of (sc, i, c) = []"

definition documentationParts :: "synth \<Rightarrow> CfnDocumentationPartProps list" where
  "documentationParts s = concat (map part_of (constructs s))"

definition documentationVersions :: "synth \<Rightarrow> CfnDocumentationVersionProps list" where
  "documentationVersions s = concat (map version_of (constructs s))"

definition restApis :: "synth \<Rightarrow> RestApiProps list" where
  "restApis s = concat (map api_of (constructs s))"

text \<open>An empty construct tree, the clock not yet read.\<close>

definition synth0 :: synth where
  "synth0 = \<lparr>constructs = [], reads = 0\<rparr>"

text \<open>Which of \<open>name\<close>, \<open>path\<close> and \<open>method\<close> a location carries.\<close>

definition fields_present :: "LocationProperty \<Rightarrow> bool \<times> bool \<times> bool" where
  "fields_present l = (name l \<noteq> None, path l \<noteq> None, method l \<noteq> None)"

text \<open>
  The table of the specification, in its words: the fields (name, path, method) each
  location type requires; a type outside the table has no row.
\<close>

definition spec_required_fields :: "string \<Rightarrow> (bool \<times> bool \<times> bool) option" where
  "spec_required_fields t =
     (if t = ''API'' then Some (False, False, False)
      else if t = ''AUTHORIZER'' then Some (True, False, False)
      else if t = ''PATH_PARAMETER'' then Some (True, True, True)
      else if t = ''REQUEST_HEADER'' then Some (True, True, True)
      else if t = ''RESOURCE'' then Some (False, True, False)
      else None)"

text \<open>The documentation version that \<open>createApi\<close> adds when it runs from the state \<open>s\<close>.\<close>

definition created_version :: "js_runtime \<Rightarrow> synth \<Rightarrow> CfnDocumentationVersionProps" where
  "created_version rt s = last (documentationVersions (snd (createApi rt s)))"

section \<open>The libraries the handler runs on\<close>

text \<open>
  Node and the AWS SDK for JavaScript (package aws-sdk, version 2) are not part of the
  repository; what follows is modelled from their documented behaviour, as far as the
  handler depends on it.
\<close>

subsection \<open>Buffer.prototype.toString('utf8')\<close>

text \<open>
  Node decodes the bytes as UTF-8 and puts U+FFFD (65533) wherever they are not
  well-formed, one for every maximal ill-formed part, as the decoder of the Encoding
  Standard does. The state of the decoder: the code point so far, the number of
  continuation bytes still needed, and the bounds the next byte must lie in.
\<close>

datatype utf8_state = Utf8_state nat nat nat nat

definition utf8_start :: utf8_state where
  "utf8_start = Utf8_state 0 0 128 191"

text \<open>A byte where a character starts.\<close>

definition utf8_lead :: "nat \<Rightarrow> nat list \<times> utf8_state" where
  "utf8_lead b =
     (if b \<le> 127 then ([b], utf8_start)
      else if 194 \<le> b \<and> b \<le> 223 then ([], Utf8_state (b mod 32) 1 128 191)
      else if 224 \<le> b \<and> b \<le> 239 then
        ([], Utf8_state (b mod 16) 2 (if b = 224 then 160 else 128) (if b = 237 then 159 else 191))
      else if 240 \<le> b \<and> b \<le> 244 then
        ([], Utf8_state (b mod 8) 3 (if b = 240 then 144 else 128) (if b = 244 then 143 else 191))
      else ([65533], utf8_start))"

text \<open>
  One byte: the code points it completes and the next state. A byte outside the bounds
  ends the character with U+FFFD and is read again as the start of the next one.
\<close>

fun utf8_step :: "utf8_state \<Rightarrow> nat \<Rightarrow> nat list \<times> utf8_state" where
  "utf8_step (Utf8_state cp needed lo hi) b =
     (if needed = 0 then utf8_lead b
      else if b < lo \<or> hi < b then (65533 # fst (utf8_lead b), snd (utf8_lead b))
      else if needed = 1 then ([cp * 64 + b mod 64], utf8_start)
      else ([], Utf8_state (cp * 64 + b mod 64) (needed - 1) 128 191))"

fun utf8_decode :: "utf8_state \<Rightarrow> nat list \<Rightarrow> js_string" where
  "utf8_decode (Utf8_state cp needed lo hi) [] = (if needed \<noteq> 0 then [65533] else [])"
| "utf8_decode st (b # bs) = fst (utf8_step st b) @ utf8_decode (snd (utf8_step st b)) bs"

definition Buffer_toString_utf8 :: "Buffer \<Rightarrow> js_string" where
  "Buffer_toString_utf8 buf = utf8_decode utf8_start (map unat buf)"

text \<open>
  The bytes of a text: its UTF-8 encoding, which is what a string sent as a response
  body becomes. A text consists of Unicode scalar values (code points that are not
  surrogates).
\<close>

definition scalar_value :: "nat \<Rightarrow> bool" where
  "scalar_value c = (c < 55296 \<or> (57343 < c \<and> c < 1114112))"

definition utf8_encode_code_point :: "nat \<Rightarrow> nat list" where
  "utf8_encode_code_point c =
     (if c < 128 then [c]
      else if c < 2048 then [192 + c div 64, 128 + c mod 64]
      else if c < 65536 then [224 + c div 4096, 128 + c div 64 mod 64, 128 + c mod 64]
      else [240 + c div 262144, 128 + c div 4096 mod 64, 128 + c div 64 mod 64, 128 + c mod 64])"

definition utf8_bytes :: "js_string \<Rightarrow> Buffer" where
  "utf8_bytes s = map of_nat (concat (map utf8_encode_code_point s))"

subsection \<open>The SDK client and the hosting platform\<close>

text \<open>
  \<open>client.getExport(params, callback)\<close> of the SDK, for a client with valid
  credentials and region: the parameters are validated first, in the client; only a
  valid request is sent to the hosting platform, and a failure that the SDK counts as
  retryable is sent again, up to \<open>maxRetries\<close> times; the last outcome goes to the
  callback. The hosting platform answers a request with the exported document or
  refuses it with an HTTP status and an error; \<open>platform k\<close> is its answer to the
  \<open>k\<close>-th request sent (counted from 0). Redirects, and the renewal of expired
  credentials or signatures, after which the SDK sends again as well, are left out.
\<close>

datatype platform_reply = Served ExportResponse | Refused nat AWSError

text \<open>
  Parameter validation. \<open>restApiId\<close>, \<open>stageName\<close> and \<open>exportType\<close> are required
  and are parts of the request's URI: a required key that is undefined is a
  MissingRequiredParameter, an empty string for a URI part a UriParameterError. One
  error is delivered as it is, several as one MultipleValidationErrors.
\<close>

definition missing_required :: "string \<Rightarrow> string option \<Rightarrow> AWSError list" where
  "missing_required key v =
     (case v of
        None \<Rightarrow>
          [\<lparr>code = ''MissingRequiredParameter'',
            message = ''Missing required key '' @ [CHR 39] @ key @ [CHR 39] @ '' in params''\<rparr>]
      | Some x \<Rightarrow> [])"

definition validate_uri :: "string \<Rightarrow> string option \<Rightarrow> AWSError list" where
  "validate_uri key v =
     (if v = Some [] then
        [\<lparr>code = ''UriParameterError'',
          message = ''Expected uri parameter to have length >= 1, but found '' @
                    [CHR 34, CHR 34] @ '' for params.'' @ key\<rparr>]
      else [])"

definition validation_errors :: "GetExportRequest \<Rightarrow> AWSError list" where
  "validation_errors req =
     missing_required ''restApiId'' (restApiId req) @
     missing_required ''stageName'' (stageName req) @
     validate_uri ''restApiId'' (restApiId req) @
     validate_uri ''stageName'' (stageName req) @
     validate_uri ''exportType'' (Some (exportType req))"

definition validation_failure :: "AWSError list \<Rightarrow> AWSError" where
  "validation_failure errs =
     (case errs of
        [e] \<Rightarrow> e
      | _ \<Rightarrow>
          \<lparr>code = ''MultipleValidationErrors'',
           message = ''There were '' @ Number_toString (int (length errs)) @
                     '' validation errors:'' @
                     concat (map (\<lambda>e. [CHR 10] @ ''* '' @ code e @ '': '' @ message e) errs)\<rparr>)"

text \<open>
  Which failures the SDK sends again (\<open>retryableError\<close> of its service class), and
  how often: the handler's client configuration sets the region only, so
  \<open>maxRetries\<close> is the default of the service, 3.
\<close>

definition throttledError :: "nat \<Rightarrow> AWSError \<Rightarrow> bool" where
  "throttledError status e =
     (status = 429 \<or>
      code e \<in> set [''ProvisionedThroughputExceededException'', ''Throttling'',
                    ''ThrottlingException'', ''RequestLimitExceeded'', ''RequestThrottled'',
                    ''RequestThrottledException'', ''TooManyRequestsException'',
                    ''TransactionInProgressException'', ''EC2ThrottledException''])"

definition retryableError :: "nat \<Rightarrow> AWSError \<Rightarrow> bool" where
  "retryableError status e =
     (code e = ''TimeoutError'' \<or> code e = ''NetworkingError'' \<or>
      code e = ''ExpiredTokenException'' \<or> throttledError status e \<or> 500 \<le> status)"

definition defaultRetryCount :: nat where
  "defaultRetryCount = 3"

definition maxRetries :: "ClientConfiguration \<Rightarrow> nat" where
  "maxRetries config = defaultRetryCount"

text \<open>
  Sending request number \<open>k\<close> with \<open>left\<close> retries left: the outcome for the
  callback and the number of requests sent so far.
\<close>

fun attempt :: "(nat \<Rightarrow> platform_reply) \<Rightarrow> nat \<Rightarrow> nat \<Rightarrow> getExport_outcome \<times> nat" where
  "attempt replies k 0 =
     (case replies k of
        Served d \<Rightarrow> (Succeeded d, Suc k)
      | Refused status e \<Rightarrow> (Failed e, Suc k))"
| "attempt replies k (Suc left) =
     (case replies k of
        Served d \<Rightarrow> (Succeeded d, Suc k)
      | Refused status e \<Rightarrow>
          if retryableError status e then attempt replies (Suc k) left else (Failed e, Suc k))"

definition send ::
  "(nat \<Rightarrow> ClientConfiguration \<Rightarrow> GetExportRequest \<Rightarrow> platform_reply) \<Rightarrow>
   ClientConfiguration \<Rightarrow> GetExportRequest \<Rightarrow> getExport_outcome \<times> nat" where
  "send platform config req =
     (if validation_errors req = [] then attempt (\<lambda>k. platform k config req) 0 (maxRetries config)
      else (Failed (validation_failure (validation_errors req)), 0))"

definition sdk_getExport ::
  "(nat \<Rightarrow> ClientConfiguration \<Rightarrow> GetExportRequest \<Rightarrow> platform_reply) \<Rightarrow>
   ClientConfiguration \<Rightarrow> GetExportRequest \<Rightarrow> getExport_outcome" where
  "sdk_getExport platform config req = fst (send platform config req)"

text \<open>
  The export as it runs: the handler on Node's decoder and the SDK client, against a
  hosting platform; and the number of requests that reach the platform in a run.
\<close>

definition exportOas3 ::
  "(nat \<Rightarrow> ClientConfiguration \<Rightarrow> GetExportRequest \<Rightarrow> platform_reply) \<Rightarrow>
   (string \<Rightarrow> string option) \<Rightarrow> APIGatewayProxyEventV2 \<Rightarrow> Context \<Rightarrow> handler_run" where
  "exportOas3 platform env event context =
     handler Buffer_toString_utf8 (sdk_getExport platform) env event context"

definition requests_sent ::
  "(nat \<Rightarrow> ClientConfiguration \<Rightarrow> GetExportRequest \<Rightarrow> platform_reply) \<Rightarrow> handler_run \<Rightarrow> nat" where
  "requests_sent platform run = sum_list (map (\<lambda>(c, r). snd (send platform c r)) (calls run))"


section \<open>Properties of the export handler\<close>

lemma callback_failed:
  "getExport_callback toString (callback_err (Failed e)) (callback_data (Failed e)) =
     ([Callback_error e], Threw TypeError)"
  by (simp add: getExport_callback_def callback_err_def callback_data_def data_body_def)

lemma callback_succeeded:
  "getExport_callback toString (callback_err (Succeeded d)) (callback_data (Succeeded d)) =
     (case body d of
        None \<Rightarrow> ([], Threw TypeError)
      | Some D \<Rightarrow>
          ([Callback_result \<lparr>statusCode = 200,
               headers = [(''Access-Control-Allow-Origin'', ''*'')], result_body = toString D\<rparr>],
           Returned))"
  by (simp add: getExport_callback_def callback_err_def callback_data_def data_body_def
      Buffer_from_def split: option.split)

lemma handler_calls:
  "calls (handler toString getExport env event context) = [(client, getExportParams env)]"
  by (simp add: handler_def Let_def split: prod.split)

text \<open>
  Were the SDK ever to deliver an error and data together, the missing \<open>return\<close>
  would show as two callbacks: the error first, a document after it.
\<close>

lemma getExport_callback_err_and_data:
  "body d = Some D \<Longrightarrow>
   getExport_callback toString (Some e) (Some d) =
     ([Callback_error e,
       Callback_result \<lparr>statusCode = 200,
          headers = [(''Access-Control-Allow-Origin'', ''*'')], result_body = toString D\<rparr>],
      Returned)"
  by (simp add: getExport_callback_def data_body_def Buffer_from_def)

subsection \<open>Decoding inverts encoding\<close>

lemma mult_add_mod: "q < m \<Longrightarrow> (k * m + q) mod m = (q::nat)"
  by simp

lemma lead_mod:
  "q < 32 \<Longrightarrow> (192 + q) mod 32 = (q::nat)"
  "q < 16 \<Longrightarrow> (224 + q) mod 16 = (q::nat)"
  "q < 8 \<Longrightarrow> (240 + q) mod 8 = (q::nat)"
  "q < 64 \<Longrightarrow> (128 + q) mod 64 = (q::nat)"
  using mult_add_mod [of q 32 6] mult_add_mod [of q 16 14] mult_add_mod [of q 8 30]
    mult_add_mod [of q 64 2]
  by simp_all

lemma decode_two:
  assumes "2 \<le> a" "a < 32" "r < 64"
  shows "utf8_decode utf8_start ([192 + a, 128 + r] @ rest) =
           (a * 64 + r) # utf8_decode utf8_start rest"
  using assms by (simp add: utf8_start_def utf8_lead_def lead_mod)

lemma decode_three:
  assumes "a < 16" "m < 64" "r < 64" "a = 0 \<longrightarrow> 32 \<le> m" "a = 13 \<longrightarrow> m < 32"
  shows "utf8_decode utf8_start ([224 + a, 128 + m, 128 + r] @ rest) =
           ((a * 64 + m) * 64 + r) # utf8_decode utf8_start rest"
  using assms by (auto simp: utf8_start_def utf8_lead_def lead_mod)

lemma decode_four:
  assumes "a < 5" "n < 64" "m < 64" "r < 64" "a = 0 \<longrightarrow> 16 \<le> n" "a = 4 \<longrightarrow> n < 16"
  shows "utf8_decode utf8_start ([240 + a, 128 + n, 128 + m, 128 + r] @ rest) =
           (((a * 64 + n) * 64 + m) * 64 + r) # utf8_decode utf8_start rest"
  using assms by (auto simp: utf8_start_def utf8_lead_def lead_mod)

lemma div_4096: "c div 4096 = c div 64 div (64::nat)"
  by (simp add: div_mult2_eq [symmetric])

lemma div_262144: "c div 262144 = c div 64 div 64 div (64::nat)"
  by (simp add: div_mult2_eq [symmetric])

lemma decode_code_point:
  assumes "scalar_value c"
  shows "utf8_decode utf8_start (utf8_encode_code_point c @ rest) = c # utf8_decode utf8_start rest"
proof -
  define q where "q = c div 64"
  define p where "p = q div 64"
  have ceq: "q * 64 + c mod 64 = c" and qeq: "p * 64 + q mod 64 = q"
    and peq: "p div 64 * 64 + p mod 64 = p"
    by (simp_all add: q_def p_def)
  consider "c < 128" | "128 \<le> c" "c < 2048" | "2048 \<le> c" "c < 65536" | "65536 \<le> c"
    by linarith
  then show ?thesis
  proof cases
    case 1
    then show ?thesis
      by (simp add: utf8_encode_code_point_def utf8_start_def utf8_lead_def)
  next
    case 2
    then have enc: "utf8_encode_code_point c = [192 + q, 128 + c mod 64]"
      by (simp add: utf8_encode_code_point_def q_def)
    from 2 have "2 \<le> q" "q < 32" unfolding q_def by simp_all
    then have "utf8_decode utf8_start ([192 + q, 128 + c mod 64] @ rest) =
               (q * 64 + c mod 64) # utf8_decode utf8_start rest"
      by (intro decode_two) simp_all
    then show ?thesis by (simp only: enc ceq)
  next
    case 3
    then have enc: "utf8_encode_code_point c = [224 + p, 128 + q mod 64, 128 + c mod 64]"
      by (simp add: utf8_encode_code_point_def div_4096 q_def p_def)
    from 3 have b: "32 \<le> q" "q < 1024" unfolding q_def by simp_all
    then have "p < 16" unfolding p_def by simp
    moreover from b qeq have "p = 0 \<longrightarrow> 32 \<le> q mod 64" by auto
    moreover have "p = 13 \<longrightarrow> q mod 64 < 32"
    proof
      assume p13: "p = 13"
      have "q mod 64 < 64" by simp
      with p13 qeq have "q < 896" by linarith
      moreover have "c mod 64 < 64" by simp
      ultimately have "c < 57344" using ceq by linarith
      with assms have "c < 55296" by (simp add: scalar_value_def)
      then have "q < 864" unfolding q_def by simp
      with p13 qeq show "q mod 64 < 32" by linarith
    qed
    ultimately have "utf8_decode utf8_start ([224 + p, 128 + q mod 64, 128 + c mod 64] @ rest) =
               ((p * 64 + q mod 64) * 64 + c mod 64) # utf8_decode utf8_start rest"
      by (intro decode_three) simp_all
    then show ?thesis by (simp only: enc ceq qeq)
  next
    case 4
    then have enc: "utf8_encode_code_point c =
        [240 + p div 64, 128 + p mod 64, 128 + q mod 64, 128 + c mod 64]"
      by (simp add: utf8_encode_code_point_def div_4096 div_262144 q_def p_def)
    from assms 4 have "c < 1114112" by (simp add: scalar_value_def)
    with 4 have b: "1024 \<le> q" "q < 17408" unfolding q_def by simp_all
    then have b': "16 \<le> p" "p < 272" unfolding p_def by simp_all
    then have "p div 64 < 5" by simp
    moreover from b' peq have "p div 64 = 0 \<longrightarrow> 16 \<le> p mod 64" by auto
    moreover have "p div 64 = 4 \<longrightarrow> p mod 64 < 16"
    proof
      assume "p div 64 = 4"
      with peq b' show "p mod 64 < 16" by linarith
    qed
    ultimately have "utf8_decode utf8_start
                 ([240 + p div 64, 128 + p mod 64, 128 + q mod 64, 128 + c mod 64] @ rest) =
               (((p div 64 * 64 + p mod 64) * 64 + q mod 64) * 64 + c mod 64) #
                 utf8_decode utf8_start rest"
      by (intro decode_four) simp_all
    then show ?thesis by (simp only: enc ceq qeq peq)
  qed
qed

lemma decode_encode:
  "list_all scalar_value s \<Longrightarrow>
   utf8_decode utf8_start (concat (map utf8_encode_code_point s)) = s"
proof (induction s)
  case Nil
  then show ?case by (simp add: utf8_start_def)
next
  case (Cons c s)
  then show ?case by (simp add: decode_code_point)
qed

lemma encode_byte:
  assumes "scalar_value c" and "b \<in> set (utf8_encode_code_point c)"
  shows "b < 256"
proof -
  have m: "c mod 64 < 64" "c div 64 mod 64 < 64" "c div 4096 mod 64 < 64" by simp_all
  from assms(1) have "c < 1114112" by (auto simp: scalar_value_def)
  then have d: "c div 262144 < 5" by simp
  have "c < 2048 \<Longrightarrow> c div 64 < 32" "c < 65536 \<Longrightarrow> c div 4096 < 16" by simp_all
  with assms(2) m d show ?thesis
    unfolding utf8_encode_code_point_def
    by (simp split: if_splits) linarith+
qed

lemma unat_of_nat_bytes:
  "\<forall>b \<in> set bs. b < 256 \<Longrightarrow> map unat (map of_nat bs :: byte list) = bs"
  by (induction bs) (simp_all add: unat_of_nat)

lemma toString_utf8_bytes:
  assumes "list_all scalar_value s"
  shows "Buffer_toString_utf8 (utf8_bytes s) = s"
proof -
  have "\<forall>b \<in> set (concat (map utf8_encode_code_point s)). b < 256"
    using assms by (auto simp: list_all_iff dest: encode_byte)
  then show ?thesis
    using assms
    by (simp add: Buffer_toString_utf8_def utf8_bytes_def unat_of_nat_bytes decode_encode
        del: map_map)
qed

subsection \<open>The retry loop of the SDK\<close>



lemma requests_sent_run:
  "requests_sent platform (handler toString getExport env event context) =
     snd (send platform client (getExportParams env))"
  by (simp add: requests_sent_def handler_calls)


lemma send_invalid:
  "validation_errors req \<noteq> [] \<Longrightarrow>
   send platform config req = (Failed (validation_failure (validation_errors req)), 0)"
  by (simp add: send_def)



lemma exportOas3_failed:
  assumes "sdk_getExport platform client (getExportParams env) = Failed e"
  shows "callbacks (exportOas3 platform env event context) = [Callback_error e]"
    and "ending (exportOas3 platform env event context) = Threw TypeError"
  using assms by (simp_all add: exportOas3_def handler_def callback_failed)

lemma exportOas3_calls:
  "calls (exportOas3 platform env event context) = [(client, getExportParams env)]"
  by (simp add: exportOas3_def handler_calls)

lemma exportOas3_requests:
  "requests_sent platform (exportOas3 platform env event context) =
     snd (send platform client (getExportParams env))"
  by (simp add: exportOas3_def requests_sent_run)


lemma empty_uri_part_invalid:
  assumes "env ''restApiId'' = Some [] \<or> env ''stage'' = Some []"
  shows "validation_errors (getExportParams env) \<noteq> []"
    and "code (validation_failure (validation_errors (getExportParams env))) \<in>
           {''UriParameterError'', ''MultipleValidationErrors''}"
  using assms
  by (cases "env ''restApiId''"; cases "env ''stage''";
      auto simp: validation_errors_def getExportParams_def missing_required_def validate_uri_def
        validation_failure_def split: list.split)+

text \<open>
  Claim C1, as amended. When the platform's export capability succeeds and the body of
  its response is the UTF-8 encoding of a text, the handler answers the Lambda callback
  exactly once, with status code 200, the one header \<open>Access-Control-Allow-Origin: *\<close>
  and exactly that text as body, so that the body's bytes are the document's; the SDK
  callback returns normally, and the one platform call is that of this request. (As
  written, the claim holds for every document; the theorem after the next shows a
  document with a byte that is not UTF-8 coming back with U+FFFD in its place, which
  is three other bytes.)
\<close>

theorem handler_success_returns_text:
  assumes "getExport client (getExportParams env) = Succeeded d"
    and "body d = Some (utf8_bytes document)" and "list_all scalar_value document"
  shows "callbacks (handler Buffer_toString_utf8 getExport env event context) =
           [Callback_result \<lparr>statusCode = 200,
              headers = [(''Access-Control-Allow-Origin'', ''*'')], result_body = document\<rparr>]
         \<and> ending (handler Buffer_toString_utf8 getExport env event context) = Returned
         \<and> calls (handler Buffer_toString_utf8 getExport env event context) =
             [(client, getExportParams env)]"
  using assms by (simp add: handler_def callback_succeeded toString_utf8_bytes)

theorem handler_success_returns_text_witness:
  "list_all scalar_value [123, 34, 8364, 34, 125]
   \<and> utf8_bytes [123, 34, 8364, 34, 125] = [123, 34, 226, 130, 172, 34, 125]
   \<and> callbacks (handler Buffer_toString_utf8
      (\<lambda>c r. Succeeded \<lparr>contentType = Some ''application/json'', contentDisposition = None,
                           body = Some [123, 34, 226, 130, 172, 34, 125]\<rparr>)
      getOas3_environment
      \<lparr>routeKey = ''GET /api-docs/api-docs.json'', rawPath = ''/api-docs/api-docs.json'',
        rawQueryString = [], event_headers = [], queryStringParameters = None,
        event_body = None\<rparr>
      \<lparr>functionName = ''getOas3'', awsRequestId = ''1''\<rparr>) =
     [Callback_result \<lparr>statusCode = 200,
        headers = [(''Access-Control-Allow-Origin'', ''*'')],
        result_body = [123, 34, 8364, 34, 125]\<rparr>]"
  using handler_success_returns_text
    [where getExport = "\<lambda>c r. Succeeded \<lparr>contentType = Some ''application/json'',
                           contentDisposition = None,
                           body = Some [123, 34, 226, 130, 172, 34, 125]\<rparr>"
       and env = getOas3_environment and document = "[123, 34, 8364, 34, 125]"]
  by (simp add: utf8_bytes_def utf8_encode_code_point_def scalar_value_def)

theorem handler_ill_formed_document_counterexample:
  "callbacks (handler Buffer_toString_utf8
      (\<lambda>c r. Succeeded \<lparr>contentType = Some ''application/json'', contentDisposition = None,
                           body = Some [123, 255, 125]\<rparr>)
      getOas3_environment
      \<lparr>routeKey = ''GET /api-docs/api-docs.json'', rawPath = ''/api-docs/api-docs.json'',
        rawQueryString = [], event_headers = [], queryStringParameters = None,
        event_body = None\<rparr>
      \<lparr>functionName = ''getOas3'', awsRequestId = ''7''\<rparr>) =
     [Callback_result \<lparr>statusCode = 200,
        headers = [(''Access-Control-Allow-Origin'', ''*'')],
        result_body = [123, 65533, 125]\<rparr>]
   \<and> utf8_bytes [123, 65533, 125] = [123, 239, 191, 189, 125]
   \<and> utf8_bytes [123, 65533, 125] \<noteq> [123, 255, 125]"
  by (simp add: handler_def callback_succeeded Buffer_toString_utf8_def utf8_start_def
      utf8_lead_def utf8_bytes_def utf8_encode_code_point_def)




text \<open>
  Claim C4. When the platform call fails, \<open>data\<close> is undefined, and the statement
  after \<open>if (err) callback(err);\<close> still runs: having reported the error, the
  handler evaluates \<open>data.body\<close>, which throws a TypeError, so the SDK callback ends
  by throwing.
\<close>

theorem handler_error_falls_through:
  assumes "getExport client (getExportParams env) = Failed e"
  shows "data_body (callback_data (getExport client (getExportParams env))) = Inl TypeError
         \<and> callbacks (handler toString getExport env event context) = [Callback_error e]
         \<and> ending (handler toString getExport env event context) = Threw TypeError"
  using assms
  by (simp add: handler_def getExport_callback_def callback_err_def callback_data_def
      data_body_def)

theorem handler_error_falls_through_witness:
  "ending (handler (\<lambda>b. [])
      (\<lambda>c r. Failed \<lparr>code = ''TooManyRequestsException'', message = ''Rate exceeded''\<rparr>)
      (\<lambda>k. None)
      \<lparr>routeKey = ''GET /api-docs/api-docs.json'', rawPath = ''/api-docs/api-docs.json'',
        rawQueryString = [], event_headers = [], queryStringParameters = None,
        event_body = None\<rparr>
      \<lparr>functionName = ''getOas3'', awsRequestId = ''3''\<rparr>) = Threw TypeError"
  using handler_error_falls_through
    [where getExport = "\<lambda>c r. Failed \<lparr>code = ''TooManyRequestsException'',
                           message = ''Rate exceeded''\<rparr>"
       and env = "\<lambda>k. None"]
  by simp

text \<open>
  Claim C3, as amended. When the API id or the stage is the empty string, the export
  fails and no request reaches the hosting platform. The handler does not validate
  anything: it hands the request to \<open>getExport\<close> as it is, and the SDK's parameter
  validation stops it in the client. The failure that the handler reports through
  \<open>callback(err)\<close> is the SDK's error, with code UriParameterError (or
  MultipleValidationErrors when more than one parameter is bad), and the SDK callback
  then ends with the TypeError of claim C4. (As written, the claim has the export fail
  with InvalidExportRequest; the theorem after the next shows the error that is
  reported for an empty API id.)
\<close>

theorem empty_id_or_stage_stopped_in_client:
  assumes "env ''restApiId'' = Some [] \<or> env ''stage'' = Some []"
  shows "requests_sent platform (exportOas3 platform env event context) = 0
         \<and> calls (exportOas3 platform env event context) = [(client, getExportParams env)]
         \<and> callbacks (exportOas3 platform env event context) =
             [Callback_error (validation_failure (validation_errors (getExportParams env)))]
         \<and> code (validation_failure (validation_errors (getExportParams env))) \<in>
             {''UriParameterError'', ''MultipleValidationErrors''}
         \<and> ending (exportOas3 platform env event context) = Threw TypeError"
proof -
  from assms have v: "validation_errors (getExportParams env) \<noteq> []"
    by (rule empty_uri_part_invalid)
  then have "sdk_getExport platform client (getExportParams env) =
             Failed (validation_failure (validation_errors (getExportParams env)))"
    by (simp add: sdk_getExport_def send_invalid)
  from exportOas3_failed [OF this] v empty_uri_part_invalid(2) [OF assms] show ?thesis
    by (simp add: exportOas3_requests exportOas3_calls send_invalid)
qed

theorem empty_id_or_stage_stopped_in_client_witness:
  "requests_sent
      (\<lambda>k c r. Served \<lparr>contentType = None, contentDisposition = None, body = Some [123, 125]\<rparr>)
      (exportOas3
        (\<lambda>k c r. Served \<lparr>contentType = None, contentDisposition = None, body = Some [123, 125]\<rparr>)
        [''restApiId'' \<mapsto> ''dekq8mivw9'', ''stage'' \<mapsto> []]
        \<lparr>routeKey = ''GET /api-docs/api-docs.json'', rawPath = ''/api-docs/api-docs.json'',
          rawQueryString = [], event_headers = [], queryStringParameters = None,
          event_body = None\<rparr>
        \<lparr>functionName = ''getOas3'', awsRequestId = ''4''\<rparr>) = 0
   \<and> callbacks
      (exportOas3
        (\<lambda>k c r. Served \<lparr>contentType = None, contentDisposition = None, body = Some [123, 125]\<rparr>)
        [''restApiId'' \<mapsto> ''dekq8mivw9'', ''stage'' \<mapsto> []]
        \<lparr>routeKey = ''GET /api-docs/api-docs.json'', rawPath = ''/api-docs/api-docs.json'',
          rawQueryString = [], event_headers = [], queryStringParameters = None,
          event_body = None\<rparr>
        \<lparr>functionName = ''getOas3'', awsRequestId = ''4''\<rparr>) =
     [Callback_error
        \<lparr>code = ''UriParameterError'',
         message = ''Expected uri parameter to have length >= 1, but found '' @
                   [CHR 34, CHR 34] @ '' for params.stageName''\<rparr>]"
  using empty_id_or_stage_stopped_in_client
    [where env = "[''restApiId'' \<mapsto> ''dekq8mivw9'', ''stage'' \<mapsto> []]"
       and platform = "\<lambda>k c r. Served \<lparr>contentType = None, contentDisposition = None,
                                         body = Some [123, 125]\<rparr>"]
  by (simp add: validation_errors_def getExportParams_def missing_required_def validate_uri_def
      validation_failure_def)

theorem empty_apiId_error_counterexample:
  "callbacks
      (exportOas3
        (\<lambda>k c r. Served \<lparr>contentType = None, contentDisposition = None, body = Some [123, 125]\<rparr>)
        [''restApiId'' \<mapsto> [], ''stage'' \<mapsto> ''prod'']
        \<lparr>routeKey = ''GET /api-docs/api-docs.json'', rawPath = ''/api-docs/api-docs.json'',
          rawQueryString = [], event_headers = [], queryStringParameters = None,
          event_body = None\<rparr>
        \<lparr>functionName = ''getOas3'', awsRequestId = ''9''\<rparr>) =
     [Callback_error
        \<lparr>code = ''UriParameterError'',
         message = ''Expected uri parameter to have length >= 1, but found '' @
                   [CHR 34, CHR 34] @ '' for params.restApiId''\<rparr>]
   \<and> ending
      (exportOas3
        (\<lambda>k c r. Served \<lparr>contentType = None, contentDisposition = None, body = Some [123, 125]\<rparr>)
        [''restApiId'' \<mapsto> [], ''stage'' \<mapsto> ''prod'']
        \<lparr>routeKey = ''GET /api-docs/api-docs.json'', rawPath = ''/api-docs/api-docs.json'',
          rawQueryString = [], event_headers = [], queryStringParameters = None,
          event_body = None\<rparr>
        \<lparr>functionName = ''getOas3'', awsRequestId = ''9''\<rparr>) = Threw TypeError"
  by (simp add: exportOas3_def handler_def sdk_getExport_def send_def validation_errors_def
      getExportParams_def missing_required_def validate_uri_def validation_failure_def
      callback_failed)

text \<open>
  Claim C9. Every request the handler sends asks for the export type \<open>oas30\<close> with
  the parameters \<open>{extensions: 'documentation'}\<close>, whatever the environment holds; in
  particular the environment the stack configures has \<open>extensions = apigateway\<close>, and
  the request still says \<open>documentation\<close>.
\<close>

theorem export_format_fixed:
  "exportType (getExportParams env) = ''oas30''
   \<and> parameters (getExportParams env) = [(''extensions'', ''documentation'')]
   \<and> map (exportType \<circ> snd) (calls (handler toString getExport env event context)) = [''oas30'']
   \<and> map (parameters \<circ> snd) (calls (handler toString getExport env event context)) =
       [[(''extensions'', ''documentation'')]]
   \<and> getOas3_environment ''extensions'' = Some ''apigateway''
   \<and> parameters (getExportParams getOas3_environment) = [(''extensions'', ''documentation'')]"
  by (simp add: handler_calls getExportParams_def getOas3_environment_def)

text \<open>
  Claim C10. The platform request does not depend on the incoming event (nor on the
  context): two invocations whose environments agree on \<open>restApiId\<close> and \<open>stage\<close>
  send the same request, whatever their events are.
\<close>

theorem request_independent_of_event:
  assumes "env1 ''restApiId'' = env2 ''restApiId''" and "env1 ''stage'' = env2 ''stage''"
  shows "calls (handler toString getExport env1 event1 context1) =
         calls (handler toString' getExport' env2 event2 context2)"
  using assms by (simp add: handler_calls getExportParams_def)

theorem request_independent_of_event_witness:
  "calls (handler (\<lambda>b. [])
      (\<lambda>c r. Succeeded \<lparr>contentType = None, contentDisposition = None, body = Some []\<rparr>)
      getOas3_environment
      \<lparr>routeKey = ''GET /api-docs/api-docs.json'', rawPath = ''/api-docs/api-docs.json'',
        rawQueryString = [], event_headers = [], queryStringParameters = None,
        event_body = None\<rparr>
      \<lparr>functionName = ''getOas3'', awsRequestId = ''5''\<rparr>) =
   calls (handler (\<lambda>b. [])
      (\<lambda>c r. Succeeded \<lparr>contentType = None, contentDisposition = None, body = Some []\<rparr>)
      [''restApiId'' \<mapsto> ''dekq8mivw9'', ''stage'' \<mapsto> ''prod'']
      \<lparr>routeKey = ''GET /api-docs/api-docs.json'', rawPath = ''/api-docs/api-docs.json'',
        rawQueryString = ''restApiId=other&stage=dev&exportType=swagger'',
        event_headers = [(''x-rest-api-id'', ''other'')],
        queryStringParameters =
          Some [(''restApiId'', ''other''), (''stage'', ''dev''), (''exportType'', ''swagger'')],
        event_body = Some ''{\"restApiId\": \"other\"}''\<rparr>
      \<lparr>functionName = ''getOas3'', awsRequestId = ''6''\<rparr>)"
  using request_independent_of_event
    [where ?env1.0 = getOas3_environment
       and ?env2.0 = "[''restApiId'' \<mapsto> ''dekq8mivw9'', ''stage'' \<mapsto> ''prod'']"]
  by (simp add: getOas3_environment_def)

section \<open>Properties of the documentation registry\<close>

subsection \<open>What each method adds to the construct tree\<close>

lemma constructs_new: "constructs (new sc i c s) = constructs s @ [(sc, i, c)]"
  by (simp add: new_def)

lemma reads_new: "reads (new sc i c s) = reads s"
  by (simp add: new_def)

lemma documentationParts_new:
  "documentationParts (new sc i c s) = documentationParts s @ part_of (sc, i, c)"
  by (simp add: documentationParts_def constructs_new)

lemma documentationVersions_new:
  "documentationVersions (new sc i c s) = documentationVersions s @ version_of (sc, i, c)"
  by (simp add: documentationVersions_def constructs_new)

lemma restApis_new: "restApis (new sc i c s) = restApis s @ api_of (sc, i, c)"
  by (simp add: restApis_def constructs_new)

lemma reads_update_facts:
  "documentationParts (s\<lparr>reads := n\<rparr>) = documentationParts s"
  "documentationVersions (s\<lparr>reads := n\<rparr>) = documentationVersions s"
  "restApis (s\<lparr>reads := n\<rparr>) = restApis s"
  by (simp_all add: documentationParts_def documentationVersions_def restApis_def)

lemma new_Date_parts:
  "documentationParts (snd (new_Date rt s)) = documentationParts s"
  "documentationVersions (snd (new_Date rt s)) = documentationVersions s"
  "restApis (snd (new_Date rt s)) = restApis s"
  "reads (snd (new_Date rt s)) = Suc (reads s)"
  "fst (new_Date rt s) = Date (now_at rt (reads s))"
  by (simp_all add: new_Date_def documentationParts_def documentationVersions_def restApis_def)

lemma addResource_facts:
  "documentationParts (snd (addResource r p s)) = documentationParts s"
  "reads (snd (addResource r p s)) = reads s"
  by (simp_all add: addResource_def Let_def documentationParts_new reads_new)

lemma addMethod_facts:
  "documentationParts (addMethod r m t opts s) = documentationParts s"
  "reads (addMethod r m t opts s) = reads s"
  by (simp_all add: addMethod_def documentationParts_new reads_new)

lemma addModel_facts:
  "documentationParts (snd (addModel api i props s)) = documentationParts s"
  "reads (snd (addModel api i props s)) = reads s"
  by (simp_all add: addModel_def documentationParts_new reads_new)

lemma createApi_reads: "reads (snd (createApi rt s)) = Suc (reads s)"
  by (simp add: createApi_def Let_def new_Date_def reads_new split: prod.split)

lemma createApi_fst: "fst (createApi rt s) = RestApi_of ''api''"
  by (simp add: createApi_def Let_def split: prod.split)

lemma createApi_versions:
  "documentationVersions (snd (createApi rt s)) =
     documentationVersions s @
       [\<lparr>version_restApiId = Ref ''api'',
         documentationVersion = Number_toString (now_at rt (reads s)),
         version_description =
           ''Documentation generated at '' @ toISOString rt (Date (now_at rt (reads s)))\<rparr>]"
  by (simp add: createApi_def Let_def new_Date_def documentationVersions_new restApiId_of_def
      reads_update_facts)

lemma createApi_restApis:
  "map deployOptions_description (restApis (snd (createApi rt s))) =
     map deployOptions_description (restApis s) @
       [''Description of deployment at '' @ toISOString rt (Date (now_at rt (reads s)))]"
  by (simp add: createApi_def Let_def new_Date_def restApis_new reads_update_facts)

lemma createApi_parts:
  "documentationParts (snd (createApi rt s)) =
     documentationParts s @
       [\<lparr>location = \<lparr>type = ''API'', name = None, path = None, method = None\<rparr>,
         part_restApiId = Ref ''api'',
         properties = JSON_stringify rt
           (JObject
              [(''info'', JObject
                 [(''title'', JString ''A custom title''),
                  (''description'', JString
                     (''Documentation description generated at '' @
                        toISOString rt (Date (now_at rt (reads s))))),
                  (''summary'', JString
                     (''Documentation summary generated at '' @
                        toISOString rt (Date (now_at rt (reads s))))),
                  (''license'', JObject
                     [(''name'', JString ''MIT''),
                      (''url'', JString ''https://opensource.org/licenses/MIT'')]),
                  (''contact'', JObject
                     [(''name'', JString ''Some person''),
                      (''email'', JString ''example@example.com''),
                      (''url'', JString ''https://example.com'')])])])\<rparr>]"
  by (simp add: createApi_def Let_def new_Date_def documentationParts_new restApiId_of_def
      reads_update_facts)

lemma authorizer_reads: "reads (snd (authorizer rt api s)) = reads s"
  by (simp add: authorizer_def Let_def reads_new)

lemma authorizer_locations:
  "map location (documentationParts (snd (authorizer rt api s))) =
     map location (documentationParts s) @
       [\<lparr>type = ''AUTHORIZER'', name = Some ''SomeAuthorizer'', path = None, method = None\<rparr>]"
  by (simp add: authorizer_def Let_def documentationParts_new)

lemma createTodo_facts:
  "documentationParts (createTodo api r s) = documentationParts s"
  "reads (createTodo api r s) = reads s"
  by (simp_all add: createTodo_def Let_def addModel_def addMethod_def documentationParts_new
      reads_new)

lemma listTodos_reads: "reads (listTodos rt api r a s) = reads s"
  by (simp add: listTodos_def Let_def addModel_def addMethod_def reads_new)

lemma listTodos_locations:
  "map location (documentationParts (listTodos rt api r a s)) =
     map location (documentationParts s) @
       [\<lparr>type = ''REQUEST_HEADER'', name = Some ''Authorization'',
         path = Some (resource_path r), method = Some ''GET''\<rparr>]"
  by (simp add: listTodos_def Let_def addModel_def addMethod_def documentationParts_new)

lemma todoRoute_fst: "fst (todoRoute rt api a s) = Resource ''/todo''"
  by (simp add: todoRoute_def Let_def addResource_def root_def)

lemma todoRoute_reads: "reads (snd (todoRoute rt api a s)) = reads s"
  by (simp add: todoRoute_def Let_def addResource_def root_def listTodos_reads createTodo_facts
      reads_new)

lemma todoRoute_locations:
  "map location (documentationParts (snd (todoRoute rt api a s))) =
     map location (documentationParts s) @
       [\<lparr>type = ''REQUEST_HEADER'', name = Some ''Authorization'',
         path = Some ''/todo'', method = Some ''GET''\<rparr>]"
  by (simp add: todoRoute_def Let_def addResource_def root_def listTodos_locations
      createTodo_facts documentationParts_new)

lemma getTodoById_facts:
  "documentationParts (getTodoById api r s) = documentationParts s"
  "reads (getTodoById api r s) = reads s"
  by (simp_all add: getTodoById_def Let_def addModel_def addMethod_def documentationParts_new
      reads_new)

lemma todoItemRoute_reads: "reads (todoItemRoute rt api r s) = reads s"
  by (simp add: todoItemRoute_def Let_def addResource_def getTodoById_facts reads_new)

lemma getOas3Spec_facts:
  "documentationParts (getOas3Spec rt r s) = documentationParts s"
  "reads (getOas3Spec rt r s) = reads s"
  by (simp_all add: getOas3Spec_def Let_def addMethod_def documentationParts_new reads_new)

lemma apiDocsRoute_facts:
  "documentationParts (apiDocsRoute rt api s) = documentationParts s"
  "reads (apiDocsRoute rt api s) = reads s"
  by (simp_all add: apiDocsRoute_def Let_def addResource_def getOas3Spec_facts
      documentationParts_new reads_new)

lemma ApiDocsStack_unfold:
  "ApiDocsStack rt s =
     apiDocsRoute rt (fst (createApi rt s))
       (todoItemRoute rt (fst (createApi rt s))
          (fst (todoRoute rt (fst (createApi rt s))
                 (fst (authorizer rt (fst (createApi rt s)) (snd (createApi rt s))))
                 (snd (authorizer rt (fst (createApi rt s)) (snd (createApi rt s))))))
          (snd (todoRoute rt (fst (createApi rt s))
                 (fst (authorizer rt (fst (createApi rt s)) (snd (createApi rt s))))
                 (snd (authorizer rt (fst (createApi rt s)) (snd (createApi rt s)))))))"
  by (simp add: ApiDocsStack_def Let_def split: prod.split)

lemma ApiDocsStack_reads: "reads (ApiDocsStack rt s) = Suc (reads s)"
  by (simp add: ApiDocsStack_unfold apiDocsRoute_facts todoItemRoute_reads todoRoute_reads
      authorizer_reads createApi_reads)

lemma documentationParts_synth0: "documentationParts synth0 = []"
  by (simp add: documentationParts_def synth0_def)

lemma ApiDocsStack_locations:
  "map location (documentationParts (ApiDocsStack rt s)) =
     map location (documentationParts s) @
       [\<lparr>type = ''API'', name = None, path = None, method = None\<rparr>,
        \<lparr>type = ''AUTHORIZER'', name = Some ''SomeAuthorizer'', path = None, method = None\<rparr>,
        \<lparr>type = ''REQUEST_HEADER'', name = Some ''Authorization'',
         path = Some ''/todo'', method = Some ''GET''\<rparr>,
        \<lparr>type = ''PATH_PARAMETER'', name = Some ''todoId'',
         path = Some ''/todo'', method = Some ''GET''\<rparr>]"
  by (simp add: ApiDocsStack_unfold apiDocsRoute_facts todoItemRoute_def Let_def addResource_def
      getTodoById_facts documentationParts_new todoRoute_fst
      todoRoute_locations authorizer_locations createApi_parts)

subsection \<open>Decimal digits\<close>

declare digits.simps [simp del]

lemma digit_cases: "d < 10 \<Longrightarrow> d \<in> {0, 1, 2, 3, 4, 5, 6, 7, 8, 9::nat}"
  by auto

lemma digit_value_digit_char: "d < 10 \<Longrightarrow> digit_value (digit_char d) = d"
  using digit_cases [of d] by (auto simp: digit_value_def digit_char_def)

lemma digits_value_snoc: "digits_value (s @ [c]) = 10 * digits_value s + digit_value c"
  by (simp add: digits_value_def)

lemma digits_value_digits: "digits_value (digits n) = n"
proof (induction n rule: digits.induct)
  case (1 n)
  show ?case
  proof (cases "n < 10")
    case True
    then show ?thesis
      by (simp add: digits.simps [of n] digits_value_def digit_value_digit_char)
  next
    case False
    with 1 have "digits_value (digits (n div 10)) = n div 10" by simp
    with False show ?thesis
      by (simp add: digits.simps [of n] digits_value_snoc digit_value_digit_char)
  qed
qed

lemma digit_char_not_minus: "d < 10 \<Longrightarrow> digit_char d \<noteq> CHR ''-''"
proof
  assume d: "d < 10" and "digit_char d = CHR ''-''"
  with digit_cases [of d] show False by (auto simp: digit_char_def)
qed

lemma digits_first: "\<exists>d cs. d < 10 \<and> digits n = digit_char d # cs"
proof (induction n rule: digits.induct)
  case (1 n)
  show ?case
  proof (cases "n < 10")
    case True
    then show ?thesis by (auto simp: digits.simps [of n])
  next
    case False
    with 1 obtain d cs where "d < 10" "digits (n div 10) = digit_char d # cs" by blast
    with False show ?thesis by (auto simp: digits.simps [of n])
  qed
qed

lemma decimal_value_digits: "decimal_value (digits n) = int n"
proof -
  obtain d cs where d: "d < 10" and eq: "digits n = digit_char d # cs"
    using digits_first by blast
  have "digits_value (digit_char d # cs) = n"
    using digits_value_digits [of n] eq by simp
  with d show ?thesis
    by (simp add: decimal_value_def eq digit_char_not_minus)
qed

lemma decimal_value_Number_toString: "decimal_value (Number_toString t) = t"
proof (cases "t < 0")
  case True
  then show ?thesis
    by (simp add: Number_toString_def decimal_value_def digits_value_digits)
next
  case False
  then show ?thesis
    by (simp add: Number_toString_def decimal_value_digits)
qed

lemma created_version_id:
  "documentationVersion (created_version rt s) = Number_toString (now_at rt (reads s))"
  by (simp add: created_version_def createApi_versions)

subsection \<open>The claims\<close>

text \<open>
  Claim C5. The id of the documentation version that \<open>createApi\<close> creates is the
  creation time (the time value of \<open>now\<close>) written in decimal, so it is derived from
  the creation time and reads back as that number. Two creations at different times
  give different version ids, and a later creation gives a numerically larger one. The
  creation time itself is the only \<open>createdAt\<close> the code has; the description
  carries it as \<open>now.toISOString()\<close>.
\<close>

theorem version_ids_distinct_and_increasing:
  "documentationVersion (created_version rt s) = Number_toString (now_at rt (reads s))
   \<and> decimal_value (documentationVersion (created_version rt s)) = now_at rt (reads s)
   \<and> (now_at rt (reads s) \<noteq> now_at rt' (reads s') \<longrightarrow>
        documentationVersion (created_version rt s) \<noteq>
        documentationVersion (created_version rt' s'))
   \<and> (now_at rt (reads s) < now_at rt' (reads s') \<longrightarrow>
        decimal_value (documentationVersion (created_version rt s)) <
        decimal_value (documentationVersion (created_version rt' s')))"
proof -
  have v: "\<And>r t. decimal_value (documentationVersion (created_version r t)) = now_at r (reads t)"
    by (simp add: created_version_id decimal_value_Number_toString)
  have "documentationVersion (created_version rt s) \<noteq>
        documentationVersion (created_version rt' s')"
    if "now_at rt (reads s) \<noteq> now_at rt' (reads s')"
  proof
    assume "documentationVersion (created_version rt s) =
            documentationVersion (created_version rt' s')"
    then have "decimal_value (documentationVersion (created_version rt s)) =
               decimal_value (documentationVersion (created_version rt' s'))"
      by simp
    with that show False by (simp add: v)
  qed
  then show ?thesis by (simp add: created_version_id decimal_value_Number_toString)
qed

theorem version_ids_distinct_and_increasing_witness:
  "(1700000000000::int) < 1700000000001
   \<and> documentationVersion
       (created_version
          \<lparr>now_at = (\<lambda>n. 1700000000000 + int n), toISOString = (\<lambda>d. Number_toString (getTime d)),
           JSON_stringify = (\<lambda>j. []), Path_resolve = (\<lambda>p. p)\<rparr> synth0) = ''1700000000000''
   \<and> documentationVersion
       (created_version
          \<lparr>now_at = (\<lambda>n. 1700000000000 + int n), toISOString = (\<lambda>d. Number_toString (getTime d)),
           JSON_stringify = (\<lambda>j. []), Path_resolve = (\<lambda>p. p)\<rparr> (synth0\<lparr>reads := 1\<rparr>)) =
       ''1700000000001''
   \<and> decimal_value (documentationVersion
       (created_version
          \<lparr>now_at = (\<lambda>n. 1700000000000 + int n), toISOString = (\<lambda>d. Number_toString (getTime d)),
           JSON_stringify = (\<lambda>j. []), Path_resolve = (\<lambda>p. p)\<rparr> synth0)) <
     decimal_value (documentationVersion
       (created_version
          \<lparr>now_at = (\<lambda>n. 1700000000000 + int n), toISOString = (\<lambda>d. Number_toString (getTime d)),
           JSON_stringify = (\<lambda>j. []), Path_resolve = (\<lambda>p. p)\<rparr> (synth0\<lparr>reads := 1\<rparr>)))"
  using version_ids_distinct_and_increasing
    [of "\<lparr>now_at = (\<lambda>n. 1700000000000 + int n), toISOString = (\<lambda>d. Number_toString (getTime d)),
           JSON_stringify = (\<lambda>j. []), Path_resolve = (\<lambda>p. p)\<rparr>" synth0
        "\<lparr>now_at = (\<lambda>n. 1700000000000 + int n), toISOString = (\<lambda>d. Number_toString (getTime d)),
           JSON_stringify = (\<lambda>j. []), Path_resolve = (\<lambda>p. p)\<rparr>" "synth0\<lparr>reads := 1\<rparr>"]
    version_ids_distinct_and_increasing
    [of "\<lparr>now_at = (\<lambda>n. 1700000000000 + int n), toISOString = (\<lambda>d. Number_toString (getTime d)),
           JSON_stringify = (\<lambda>j. []), Path_resolve = (\<lambda>p. p)\<rparr>" "synth0\<lparr>reads := 1\<rparr>"
        "\<lparr>now_at = (\<lambda>n. 1700000000000 + int n), toISOString = (\<lambda>d. Number_toString (getTime d)),
           JSON_stringify = (\<lambda>j. []), Path_resolve = (\<lambda>p. p)\<rparr>" synth0]
  by (simp add: synth0_def Number_toString_def digits.simps digit_char_def decimal_value_def
      digits_value_def digit_value_def)

text \<open>
  Claim C6. One pass reads the clock exactly once (in \<open>createApi\<close>; the whole
  constructor reads it once), and the deployment description, the description of the
  documentation version and the description (and summary) of the API-level
  documentation part all embed \<open>toISOString\<close> of that one reading.
\<close>

theorem createApi_single_timestamp:
  "map deployOptions_description (restApis (snd (createApi rt s))) =
     map deployOptions_description (restApis s) @
       [''Description of deployment at '' @ toISOString rt (Date (now_at rt (reads s)))]
   \<and> map version_description (documentationVersions (snd (createApi rt s))) =
     map version_description (documentationVersions s) @
       [''Documentation generated at '' @ toISOString rt (Date (now_at rt (reads s)))]
   \<and> map properties (documentationParts (snd (createApi rt s))) =
     map properties (documentationParts s) @
       [JSON_stringify rt
          (JObject
             [(''info'', JObject
                [(''title'', JString ''A custom title''),
                 (''description'', JString
                    (''Documentation description generated at '' @
                       toISOString rt (Date (now_at rt (reads s))))),
                 (''summary'', JString
                    (''Documentation summary generated at '' @
                       toISOString rt (Date (now_at rt (reads s))))),
                 (''license'', JObject
                    [(''name'', JString ''MIT''),
                     (''url'', JString ''https://opensource.org/licenses/MIT'')]),
                 (''contact'', JObject
                    [(''name'', JString ''Some person''),
                     (''email'', JString ''example@example.com''),
                     (''url'', JString ''https://example.com'')])])])]
   \<and> reads (snd (createApi rt s)) = Suc (reads s)
   \<and> reads (ApiDocsStack rt s) = Suc (reads s)"
  by (simp add: createApi_restApis createApi_versions createApi_parts createApi_reads
      ApiDocsStack_reads)

text \<open>
  Claim C7, as amended. The code has no validation of location keys: nothing is
  accepted or rejected. What holds is that the four documentation parts the stack
  registers follow the table: the API part carries none of name, path and method, the
  AUTHORIZER part the name only, the REQUEST_HEADER and PATH_PARAMETER parts all three.
  No RESOURCE part is registered. (As written, the claim has every other combination
  rejected; the theorem after this one shows a part of type AUTHORIZER with a path and
  a method being added to the construct tree like any other.)
\<close>

theorem registered_locations_follow_table:
  "map location (documentationParts (ApiDocsStack rt synth0)) =
     [\<lparr>type = ''API'', name = None, path = None, method = None\<rparr>,
      \<lparr>type = ''AUTHORIZER'', name = Some ''SomeAuthorizer'', path = None, method = None\<rparr>,
      \<lparr>type = ''REQUEST_HEADER'', name = Some ''Authorization'',
       path = Some ''/todo'', method = Some ''GET''\<rparr>,
      \<lparr>type = ''PATH_PARAMETER'', name = Some ''todoId'',
       path = Some ''/todo'', method = Some ''GET''\<rparr>]
   \<and> map (Some \<circ> fields_present) (map location (documentationParts (ApiDocsStack rt synth0))) =
     map (spec_required_fields \<circ> type)
       (map location (documentationParts (ApiDocsStack rt synth0)))"
proof -
  have l: "map location (documentationParts (ApiDocsStack rt synth0)) =
     [\<lparr>type = ''API'', name = None, path = None, method = None\<rparr>,
      \<lparr>type = ''AUTHORIZER'', name = Some ''SomeAuthorizer'', path = None, method = None\<rparr>,
      \<lparr>type = ''REQUEST_HEADER'', name = Some ''Authorization'',
       path = Some ''/todo'', method = Some ''GET''\<rparr>,
      \<lparr>type = ''PATH_PARAMETER'', name = Some ''todoId'',
       path = Some ''/todo'', method = Some ''GET''\<rparr>]"
    by (simp add: ApiDocsStack_locations documentationParts_synth0)
  have "map (Some \<circ> fields_present) (map location (documentationParts (ApiDocsStack rt synth0))) =
        map (spec_required_fields \<circ> type)
          (map location (documentationParts (ApiDocsStack rt synth0)))"
    unfolding l by (simp add: fields_present_def spec_required_fields_def)
  with l show ?thesis by (rule conjI)
qed

theorem location_fields_not_checked_counterexample:
  "map location
     (documentationParts
        (new This ''some-request-authorizer-doc''
           (CfnDocumentationPart
              \<lparr>location = \<lparr>type = ''AUTHORIZER'', name = Some ''SomeAuthorizer'',
                           path = Some ''/todo'', method = Some ''GET''\<rparr>,
               part_restApiId = Ref ''api'', properties = ''{}''\<rparr>) synth0)) =
     [\<lparr>type = ''AUTHORIZER'', name = Some ''SomeAuthorizer'',
       path = Some ''/todo'', method = Some ''GET''\<rparr>]
   \<and> spec_required_fields ''AUTHORIZER'' \<noteq>
     Some (fields_present \<lparr>type = ''AUTHORIZER'', name = Some ''SomeAuthorizer'',
                            path = Some ''/todo'', method = Some ''GET''\<rparr>)"
  by (simp add: documentationParts_def new_def synth0_def spec_required_fields_def
      fields_present_def)

text \<open>
  Claim C8, as amended. No registration fails locally: the code checks no location
  key and has no MalformedLocationKey. Its one PATH_PARAMETER registration, in
  \<open>todoItemRoute\<close>, always writes the name \<open>todoId\<close>, the path of the resource it
  is given and the method GET, and adds the part to the construct tree unconditionally.
  (As written, the claim has a PATH_PARAMETER key without a method rejected before the
  platform is contacted; the theorem after this one shows such a part being added.)
\<close>

theorem todoItemRoute_location:
  "map location (documentationParts (todoItemRoute rt api todoRoute' s)) =
     map location (documentationParts s) @
       [\<lparr>type = ''PATH_PARAMETER'', name = Some ''todoId'',
         path = Some (resource_path todoRoute'), method = Some ''GET''\<rparr>]"
  by (simp add: todoItemRoute_def Let_def addResource_def getTodoById_facts
      documentationParts_new)

theorem path_parameter_without_method_counterexample:
  "map location
     (documentationParts
        (new This ''todoIdDocs''
           (CfnDocumentationPart
              \<lparr>location = \<lparr>type = ''PATH_PARAMETER'', name = Some ''todoId'',
                           path = Some ''/todo'', method = None\<rparr>,
               part_restApiId = Ref ''api'', properties = ''{}''\<rparr>) synth0)) =
     [\<lparr>type = ''PATH_PARAMETER'', name = Some ''todoId'', path = Some ''/todo'', method = None\<rparr>]"
  by (simp add: documentationParts_def new_def synth0_def)

end
